theory Spec2Isabelle
  imports Complex_Main
begin

section \<open>Arrays\<close>

text \<open>
  The numerical code works on numpy arrays of 64-bit floats.  A one-dimensional array is a
  list of reals, a two-dimensional array is the list of its rows.  Floating-point rounding,
  infinities and NaN are outside the model: every entry is a real number.  An operation that
  numpy applies element by element to two arrays of the same shape is \<open>map2\<close> here.
\<close>

type_synonym vec = "real list"
type_synonym mat = "vec list"

datatype error =
    IndexError
  | ValueError
  | TypeError
  | ZeroDivisionError
  | UnboundLocalError
  | NetworkXNoPath
  | DirectionError

text \<open>
  Where a function is handed an array of either shape, the argument is an \<open>ndarray\<close>.
\<close>

datatype ndarray = Arr1 vec | Arr2 mat

definition vadd :: "vec \<Rightarrow> vec \<Rightarrow> vec" where
  "vadd a b = map2 (+) a b"

definition vsub :: "vec \<Rightarrow> vec \<Rightarrow> vec" where
  "vsub a b = map2 (-) a b"

definition smul :: "vec \<Rightarrow> real \<Rightarrow> vec" where
  "smul a c = map (\<lambda>x. x * c) a"

definition vdiv :: "vec \<Rightarrow> real \<Rightarrow> vec" where
  "vdiv a c = map (\<lambda>x. x / c) a"

text \<open>\<^verbatim>\<open>s.dot(s)\<close> and \<^verbatim>\<open>np.linalg.norm\<close> of a one-dimensional array.\<close>

definition dot :: "vec \<Rightarrow> vec \<Rightarrow> real" where
  "dot a b = sum_list (map2 (*) a b)"

definition linalg_norm :: "vec \<Rightarrow> real" where
  "linalg_norm a = sqrt (dot a a)"

text \<open>\<^verbatim>\<open>np.diff(path, axis=0)\<close>: row \<open>i\<close> is \<open>path[i + 1] - path[i]\<close>.\<close>

definition np_diff :: "mat \<Rightarrow> mat" where
  "np_diff path = map2 vsub (tl path) (butlast path)"

section \<open>The action functional\<close>

text \<open>
  \<^verbatim>\<open>
  def action(path, vf_func, D=1, dt=1):
      x = (path[:-1] + path[1:]) * 0.5
      v = np.diff(path, axis=0) / dt
      s = (v - vf_func(x)).flatten()
      s = 0.5 * s.dot(s) * dt / D
      return s
  \<close>
  The vector field is called once on the whole array of midpoints.
\<close>

definition action :: "mat \<Rightarrow> (mat \<Rightarrow> mat) \<Rightarrow> real \<Rightarrow> real \<Rightarrow> real" where
  "action path vf_func D dt =
     (let x = map (\<lambda>r. smul r 0.5) (map2 vadd (butlast path) (tl path));
          v = map (\<lambda>r. vdiv r dt) (np_diff path);
          s = concat (map2 vsub v (vf_func x))
      in 0.5 * dot s s * dt / D)"


text \<open>
  \<^verbatim>\<open>path_flatten.reshape(int(len(path_flatten) / dim), dim)\<close> cuts the flat vector into rows
  of \<open>dim\<close> entries.
\<close>

fun chunks :: "nat \<Rightarrow> nat \<Rightarrow> vec \<Rightarrow> mat" where
  "chunks 0 dim' xs = []"
| "chunks (Suc n) dim' xs = take dim' xs # chunks n dim' (drop dim' xs)"

text \<open>
  \<^verbatim>\<open>
  def reshape_path(path_flatten, dim, start=None, end=None):
      path = path_flatten.reshape(int(len(path_flatten) / dim), dim)
      if start is not None:
          path = np.vstack((start, path))
      if end is not None:
          path = np.vstack((path, end))
      return path
  \<close>
  The division raises for \<open>dim = 0\<close>, the reshape raises when the length is no multiple of
  \<open>dim\<close>, and \<^verbatim>\<open>np.vstack\<close> raises when the boundary point has not \<open>dim\<close> entries.
  (The names \<open>dim\<close> and \<open>end\<close> are taken in HOL; the arguments are \<open>dim'\<close> and \<open>end'\<close>.)
\<close>

definition reshape_path :: "vec \<Rightarrow> nat \<Rightarrow> vec option \<Rightarrow> vec option \<Rightarrow> error + mat" where
  "reshape_path path_flatten dim' start end' =
     (if dim' = 0 then Inl ZeroDivisionError
      else if (length path_flatten div dim') * dim' \<noteq> length path_flatten then Inl ValueError
      else
        let path = chunks (length path_flatten div dim') dim' path_flatten in
        (case start of
           None \<Rightarrow>
             (case end' of
                None \<Rightarrow> Inr path
              | Some e \<Rightarrow> if length e = dim' then Inr (path @ [e]) else Inl ValueError)
         | Some s \<Rightarrow>
             if length s \<noteq> dim' then Inl ValueError
             else
               (case end' of
                  None \<Rightarrow> Inr (s # path)
                | Some e \<Rightarrow> if length e = dim' then Inr (s # path @ [e]) else Inl ValueError)))"

text \<open>
  \<^verbatim>\<open>
  def action_aux(path_flatten, vf_func, dim, start=None, end=None, **kwargs):
      path = reshape_path(path_flatten, dim, start=start, end=end)
      return action(path, vf_func, **kwargs)
  \<close>
\<close>

definition action_aux ::
  "vec \<Rightarrow> (mat \<Rightarrow> mat) \<Rightarrow> nat \<Rightarrow> vec option \<Rightarrow> vec option \<Rightarrow> real \<Rightarrow> real \<Rightarrow> error + real" where
  "action_aux path_flatten vf_func dim' start end' D dt =
     (case reshape_path path_flatten dim' start end' of
        Inl e \<Rightarrow> Inl e
      | Inr path \<Rightarrow> Inr (action path vf_func D dt))"

text \<open>
  The Jacobian callback returns an array of shape \<open>(dim, dim, batch)\<close>; \<^verbatim>\<open>J[:, :, s]\<close> is the
  matrix of sample \<open>s\<close> and \<^verbatim>\<open>dv[s] @ J[:, :, s]\<close> a vector-matrix product.
  \<^verbatim>\<open>
  def action_grad(path, vf_func, jac_func, D=1, dt=1):
      x = (path[:-1] + path[1:]) * 0.5
      v = np.diff(path, axis=0) / dt
      dv = v - vf_func(x)
      J = jac_func(x)
      z = np.zeros(dv.shape)
      for s in range(dv.shape[0]):
          z[s] = dv[s] @ J[:, :, s]
      grad = (dv[:-1] - dv[1:]) / D - dt / (2 * D) * (z[:-1] + z[1:])
      return grad
  \<close>
\<close>

type_synonym tensor3 = "real list list list"

definition slice3 :: "tensor3 \<Rightarrow> nat \<Rightarrow> mat" where
  "slice3 J s = map (map (\<lambda>v. v ! s)) J"

definition vecmat :: "vec \<Rightarrow> mat \<Rightarrow> vec" where
  "vecmat v M = map (dot v) (transpose M)"

definition action_grad :: "mat \<Rightarrow> (mat \<Rightarrow> mat) \<Rightarrow> (mat \<Rightarrow> tensor3) \<Rightarrow> real \<Rightarrow> real \<Rightarrow> mat" where
  "action_grad path vf_func jac_func D dt =
     (let x = map (\<lambda>r. smul r 0.5) (map2 vadd (butlast path) (tl path));
          v = map (\<lambda>r. vdiv r dt) (np_diff path);
          dv = map2 vsub v (vf_func x);
          J = jac_func x;
          z = map (\<lambda>s. vecmat (dv ! s) (slice3 J s)) [0..<length dv]
      in map2 vsub (map (\<lambda>r. vdiv r D) (map2 vsub (butlast dv) (tl dv)))
                   (map (\<lambda>r. smul r (dt / (2 * D))) (map2 vadd (butlast z) (tl z))))"

definition action_grad_aux ::
  "vec \<Rightarrow> (mat \<Rightarrow> mat) \<Rightarrow> (mat \<Rightarrow> tensor3) \<Rightarrow> nat \<Rightarrow> vec option \<Rightarrow> vec option \<Rightarrow> real \<Rightarrow> real
     \<Rightarrow> error + vec" where
  "action_grad_aux path_flatten vf_func jac_func dim' start end' D dt =
     (case reshape_path path_flatten dim' start end' of
        Inl e \<Rightarrow> Inl e
      | Inr path \<Rightarrow> Inr (concat (action_grad path vf_func jac_func D dt)))"

section \<open>The least-action-path solver\<close>

text \<open>
  \<^verbatim>\<open>scipy.optimize.minimize\<close> is an external collaborator and a parameter of the model: it takes
  the objective, the start value as the caller passes it and, when given, the gradient
  callback, and returns the result dictionary (of which the code reads \<^verbatim>\<open>x\<close>, \<^verbatim>\<open>fun\<close> and
  \<^verbatim>\<open>message\<close>) or raises.  It calls the objective on flat vectors.  A Python function whose
  body has no \<^verbatim>\<open>return\<close> statement returns \<^verbatim>\<open>None\<close>: the callbacks have an optional
  result.
\<close>

record opt_result =
  res_x :: vec
  res_fun :: real
  res_message :: string

type_synonym search =
  "(vec \<Rightarrow> error + real option) \<Rightarrow> vec \<Rightarrow> (vec \<Rightarrow> error + vec option) option \<Rightarrow> error + opt_result"

type_synonym minimizer =
  "(vec \<Rightarrow> error + real option) \<Rightarrow> ndarray \<Rightarrow> (vec \<Rightarrow> error + vec option) option
     \<Rightarrow> error + opt_result"

text \<open>
  Of what \<^verbatim>\<open>scipy.optimize.minimize\<close> does, the model fixes only its first steps, which
  every method shares, and leaves the search itself open (the parameter \<open>search\<close>).  The
  start value is brought to a flat vector: a two-dimensional one is flattened by older
  versions and refused by newer ones (the parameter \<open>flattens\<close>).  The objective is
  evaluated there before anything else: an exception of the objective leaves the call, and
  a value that is no number cannot be compared and raises a type error.
\<close>

definition scipy_minimize :: "bool \<Rightarrow> search \<Rightarrow> minimizer" where
  "scipy_minimize flattens search objective x0 jac =
     (case (case x0 of
              Arr1 v \<Rightarrow> Inr v
            | Arr2 rows \<Rightarrow> if flattens then Inr (concat rows) else Inl ValueError) of
        Inl e \<Rightarrow> Inl e
      | Inr v \<Rightarrow>
          (case objective v of
             Inl e \<Rightarrow> Inl e
           | Inr None \<Rightarrow> Inl TypeError
           | Inr (Some f0) \<Rightarrow> search objective v jac))"

text \<open>\<^verbatim>\<open>path_0[0]\<close> and \<^verbatim>\<open>path_0[-1]\<close>.\<close>

definition first_row :: "mat \<Rightarrow> error + vec" where
  "first_row path = (case path of [] \<Rightarrow> Inl IndexError | r # _ \<Rightarrow> Inr r)"

definition last_row :: "mat \<Rightarrow> error + vec" where
  "last_row path = (if path = [] then Inl IndexError else Inr (last path))"

text \<open>
  The two closures of \<^verbatim>\<open>least_action_path\<close>, with the variables they capture as arguments:
  \<^verbatim>\<open>
  def fun(x):
      action_aux(x, vf_func, dim, start=path_0[0], end=path_0[-1], D=D, dt=dt_0)

  def jac(x):
      action_grad_aux(x, vf_func, jac_func, dim, start=path_0[0], end=path_0[-1], D=D, dt=dt_0)
  \<close>
  Each evaluates its expression and drops the value.
\<close>

definition least_action_path_fun ::
  "(mat \<Rightarrow> mat) \<Rightarrow> nat \<Rightarrow> mat \<Rightarrow> real \<Rightarrow> real \<Rightarrow> vec \<Rightarrow> error + real option" where
  "least_action_path_fun vf_func dim' path_0 D dt_0 x =
     (case first_row path_0 of
        Inl e \<Rightarrow> Inl e
      | Inr s \<Rightarrow>
          (case last_row path_0 of
             Inl e \<Rightarrow> Inl e
           | Inr e \<Rightarrow>
               (case action_aux x vf_func dim' (Some s) (Some e) D dt_0 of
                  Inl err \<Rightarrow> Inl err
                | Inr _ \<Rightarrow> Inr None)))"

definition least_action_path_jac ::
  "(mat \<Rightarrow> mat) \<Rightarrow> (mat \<Rightarrow> tensor3) \<Rightarrow> nat \<Rightarrow> mat \<Rightarrow> real \<Rightarrow> real \<Rightarrow> vec \<Rightarrow> error + vec option" where
  "least_action_path_jac vf_func jac_func dim' path_0 D dt_0 x =
     (case first_row path_0 of
        Inl e \<Rightarrow> Inl e
      | Inr s \<Rightarrow>
          (case last_row path_0 of
             Inl e \<Rightarrow> Inl e
           | Inr e \<Rightarrow>
               (case action_grad_aux x vf_func jac_func dim' (Some s) (Some e) D dt_0 of
                  Inl err \<Rightarrow> Inl err
                | Inr _ \<Rightarrow> Inr None)))"

text \<open>
  An operation on two one-dimensional arrays applies element by element when the lengths
  agree, repeats the single entry of an array of length one, and raises otherwise.
\<close>

definition broadcastable :: "vec \<Rightarrow> vec \<Rightarrow> bool" where
  "broadcastable a b = (length a = length b \<or> length a = 1 \<or> length b = 1)"

definition bcast :: "(real \<Rightarrow> real \<Rightarrow> real) \<Rightarrow> vec \<Rightarrow> vec \<Rightarrow> vec" where
  "bcast op a b =
     (if length a = length b then map2 op a b
      else if length a = 1 then map (op (a ! 0)) b
      else map (\<lambda>x. op x (b ! 0)) a)"

text \<open>
  The default seed: row \<open>k\<close> of
  \<^verbatim>\<open>np.tile(start, (n_points + 1, 1)) + (np.linspace(0, 1, n_points + 1, endpoint=True) * np.tile(end - start, (n_points + 1, 1)).T).T\<close>
  is \<open>start + linspace[k] * (end - start)\<close>; \<^verbatim>\<open>np.linspace(0, 1, 1)\<close> is the single value 0.
  The difference \<^verbatim>\<open>end - start\<close> raises when the two lengths cannot be broadcast; when they
  can, so can the sum.  The entries are reals: the last row of the float code is
  \<open>start + 1.0 * (end - start)\<close> after two roundings, which need not be \<open>end\<close>, and nothing
  below relies on what the rows of the default seed are equal to.
\<close>

definition linspace01 :: "nat \<Rightarrow> vec" where
  "linspace01 num = map (\<lambda>k. if num \<le> 1 then 0 else real k / real (num - 1)) [0..<num]"

definition default_path :: "vec \<Rightarrow> vec \<Rightarrow> nat \<Rightarrow> error + mat" where
  "default_path start end' n_points =
     (if broadcastable end' start
      then Inr (map (\<lambda>c. bcast (+) start (smul (bcast (-) end' start) c))
                    (linspace01 (n_points + 1)))
      else Inl ValueError)"

text \<open>
  \<^verbatim>\<open>
  def least_action_path(start, end, vf_func, jac_func, n_points=20, init_path=None, D=1, dt_0=1):
      dim = len(start)
      if init_path is None:
          path_0 = (...)
      else:
          path_0 = init_path
      ...
      sol_dict = minimize(fun, path_0[1:-1], jac=jac)
      path_sol = reshape_path(sol_dict["x"], dim, start=path_0[0], end=path_0[-1])

      t_dict = minimize(lambda t: action(path_sol, vf_func, D=D, dt=t), dt_0)
      action_opt = t_dict["fun"]
      dt_sol = t_dict["x"][0]
      return path_sol, dt_sol, action_opt, sol_dict
  \<close>
  The optimizer is started from the interior rows \<^verbatim>\<open>path_0[1:-1]\<close>, a two-dimensional
  array, and then from the number \<open>dt_0\<close>, which it reads as an array of one entry.
\<close>

definition least_action_path ::
  "minimizer \<Rightarrow> vec \<Rightarrow> vec \<Rightarrow> (mat \<Rightarrow> mat) \<Rightarrow> (mat \<Rightarrow> tensor3) \<Rightarrow> nat \<Rightarrow> mat option \<Rightarrow> real \<Rightarrow> real
     \<Rightarrow> error + (mat \<times> real \<times> real \<times> opt_result)" where
  "least_action_path minimize start end' vf_func jac_func n_points init_path D dt_0 =
     (let dim' = length start in
      case (case init_path of None \<Rightarrow> default_path start end' n_points | Some p \<Rightarrow> Inr p) of
        Inl e \<Rightarrow> Inl e
      | Inr path_0 \<Rightarrow>
          (case minimize (least_action_path_fun vf_func dim' path_0 D dt_0)
                         (Arr2 (butlast (tl path_0)))
                         (Some (least_action_path_jac vf_func jac_func dim' path_0 D dt_0)) of
             Inl e \<Rightarrow> Inl e
           | Inr sol_dict \<Rightarrow>
               (case first_row path_0 of
                  Inl e \<Rightarrow> Inl e
                | Inr s \<Rightarrow>
                    (case last_row path_0 of
                       Inl e \<Rightarrow> Inl e
                     | Inr e \<Rightarrow>
                         (case reshape_path (res_x sol_dict) dim' (Some s) (Some e) of
                            Inl err \<Rightarrow> Inl err
                          | Inr path_sol \<Rightarrow>
                              (case minimize
                                      (\<lambda>t. Inr (Some (action path_sol vf_func D (t ! 0))))
                                      (Arr1 [dt_0]) None of
                                 Inl err \<Rightarrow> Inl err
                               | Inr t_dict \<Rightarrow>
                                   (case res_x t_dict of
                                      [] \<Rightarrow> Inl IndexError
                                    | dt_sol # _ \<Rightarrow>
                                        Inr (path_sol, dt_sol, res_fun t_dict, sol_dict))))))))"

section \<open>The trajectory container\<close>

text \<open>
  Modelled from the spec: the base class \<^verbatim>\<open>Trajectory\<close> (module \<^verbatim>\<open>trajectory\<close>) is not among
  the source files; by the spec it owns a path and its time grid, of the same length.
\<close>

record Trajectory =
  traj_X :: mat
  traj_t :: vec

text \<open>
  \<^verbatim>\<open>
  class LeastActionPath(Trajectory):
      def __init__(self, X, vf_func, D=1, dt=1) -> None:
          super().__init__(X, t=np.arange(X.shape[0]) * dt)
          self.func = vf_func
          self.D = D
          self._action = np.zeros(X.shape[0])
          for i in range(1, len(self._action)):
              self._action[i] = action(self.X[: i + 1], self.func, self.D, dt)
  \<close>
\<close>

record LeastActionPath = Trajectory +
  lap_func :: "mat \<Rightarrow> mat"
  lap_D :: real
  lap_action :: vec

definition LeastActionPath_init :: "mat \<Rightarrow> (mat \<Rightarrow> mat) \<Rightarrow> real \<Rightarrow> real \<Rightarrow> LeastActionPath" where
  "LeastActionPath_init X vf_func D dt =
     \<lparr> traj_X = X,
       traj_t = map (\<lambda>k. real k * dt) [0..<length X],
       lap_func = vf_func,
       lap_D = D,
       lap_action =
         foldl (\<lambda>a i. a[i := action (take (i + 1) X) vf_func D dt])
               (replicate (length X) 0) [1..<length X] \<rparr>"

section \<open>The arclength resampler\<close>

text \<open>
  \<^verbatim>\<open>
  def remove_redundant_points_trajectory(X, tol=1e-4, output_discard=False):
      """remove consecutive data points that are too close to each other."""
      X = np.atleast_2d(X)
      discard = np.zeros(len(X), dtype=bool)
      if X.shape[0] > 1:
          for i in range(len(X) - 1):
              dist = np.linalg.norm(X[i + 1] - X[i])
              if dist < tol:
                  discard[i + 1] = True
          X = X[~discard]

      arclength = 0

      x0 = X[0]
      for i in range(1, len(X)):
          tangent = X[i] - x0 if i == 1 else X[i] - X[i - 1]
          d = np.linalg.norm(tangent)

          arclength += d

      if output_discard:
          return X, arclength, discard
      else:
          return X, arclength
  \<close>
  The model returns the triple of \<^verbatim>\<open>output_discard=True\<close>; the pair of the other case is
  its first two components.  \<^verbatim>\<open>X[0]\<close> raises on an array without rows.
\<close>

definition discard_flags :: "mat \<Rightarrow> real \<Rightarrow> bool list" where
  "discard_flags X tol =
     (if length X > 1
      then False # map (\<lambda>i. linalg_norm (vsub (X ! (i + 1)) (X ! i)) < tol) [0..<length X - 1]
      else replicate (length X) False)"

text \<open>\<^verbatim>\<open>X[~discard]\<close>: the rows whose flag is not set, in order.\<close>

definition keep_rows :: "mat \<Rightarrow> bool list \<Rightarrow> mat" where
  "keep_rows X discard = map fst (filter (\<lambda>(x, d). \<not> d) (zip X discard))"

definition polyline_length :: "mat \<Rightarrow> real" where
  "polyline_length X =
     sum_list (map (\<lambda>i. linalg_norm (if i = 1 then vsub (X ! i) (X ! 0)
                                       else vsub (X ! i) (X ! (i - 1))))
                   [1..<length X])"

definition remove_redundant_points_trajectory ::
  "mat \<Rightarrow> real \<Rightarrow> error + (mat \<times> real \<times> bool list)" where
  "remove_redundant_points_trajectory X tol =
     (let discard = discard_flags X tol;
          X' = (if length X > 1 then keep_rows X discard else X)
      in if X' = [] then Inl IndexError
         else Inr (X', polyline_length X', discard))"

text \<open>
  \<^verbatim>\<open>
  def arclength_sampling(X, step_length, t=None):
      Y = []
      x0 = X[0]
      T = [] if t is not None else None
      t0 = t[0] if t is not None else None
      i = 1
      terminate = False
      arclength = 0

      while i < len(X) - 1 and not terminate:
          l = 0
          for j in range(i, len(X) - 1):
              tangent = X[j] - x0 if j == i else X[j] - X[j - 1]
              d = np.linalg.norm(tangent)
              if l + d >= step_length:
                  x = x0 if j == i else X[j - 1]
                  y = x + (step_length - l) * tangent / d
                  if t is not None:
                      tau = t0 if j == i else t[j - 1]
                      tau += (step_length - l) / d * (t[j] - tau)
                      T.append(tau)
                      t0 = tau
                  Y.append(y)
                  x0 = y
                  i = j
                  break
              else:
                  l += d
          arclength += step_length
          if l + d < step_length:
              terminate = True

      if T is not None:
          return np.array(Y), arclength, T
      else:
          return np.array(Y), arclength
  \<close>
  The variables that live across the iterations of the \<^verbatim>\<open>while\<close> loop form the state.  The
  \<^verbatim>\<open>for\<close> loop either breaks after emitting a point (at index \<open>j\<close>, with the interpolated time
  when \<open>t\<close> is given) or runs out, leaving the last values of \<open>l\<close> and \<open>d\<close>.  Reading \<^verbatim>\<open>t[j]\<close>
  beyond the end of \<open>t\<close> raises.  The \<^verbatim>\<open>while\<close> loop has no bound of its own: a run that never
  leaves it is the value \<open>None\<close>.  A point is emitted only where \<open>l + d \<ge> step_length\<close>
  while \<open>l < step_length\<close> held before, so for a positive step the divisor \<open>d\<close> is positive;
  for a step that is not positive the Python divides by a zero norm and the quotient is no
  real number.
\<close>

record sampler_state =
  s_Y :: mat
  s_x0 :: vec
  s_T :: "real list"
  s_t0 :: real
  s_i :: nat
  s_terminate :: bool
  s_arclength :: real

datatype for_result = Emitted nat vec "real option" | Exhausted real real

fun sample_for ::
  "mat \<Rightarrow> real \<Rightarrow> real list option \<Rightarrow> vec \<Rightarrow> real \<Rightarrow> nat \<Rightarrow> real \<Rightarrow> real \<Rightarrow> nat list
     \<Rightarrow> error + for_result" where
  "sample_for X step_length t x0 t0 i l d [] = Inr (Exhausted l d)"
| "sample_for X step_length t x0 t0 i l d (j # js) =
     (let tangent = (if j = i then vsub (X ! j) x0 else vsub (X ! j) (X ! (j - 1)));
          d' = linalg_norm tangent
      in if l + d' \<ge> step_length then
           (let x = (if j = i then x0 else X ! (j - 1));
                y = vadd x (vdiv (smul tangent (step_length - l)) d')
            in case t of
                 None \<Rightarrow> Inr (Emitted j y None)
               | Some ts \<Rightarrow>
                   if j \<ge> length ts then Inl IndexError
                   else
                     (let tau = (if j = i then t0 else ts ! (j - 1));
                          tau' = tau + (step_length - l) / d' * (ts ! j - tau)
                      in Inr (Emitted j y (Some tau'))))
         else sample_for X step_length t x0 t0 i (l + d') d' js)"

definition sample_step ::
  "mat \<Rightarrow> real \<Rightarrow> real list option \<Rightarrow> sampler_state \<Rightarrow> error + sampler_state" where
  "sample_step X step_length t st =
     (case sample_for X step_length t (s_x0 st) (s_t0 st) (s_i st) 0 0
             [s_i st..<length X - 1] of
        Inl e \<Rightarrow> Inl e
      | Inr (Emitted j y tau) \<Rightarrow>
          Inr (st\<lparr> s_Y := s_Y st @ [y], s_x0 := y,
                   s_T := (case tau of None \<Rightarrow> s_T st | Some v \<Rightarrow> s_T st @ [v]),
                   s_t0 := (case tau of None \<Rightarrow> s_t0 st | Some v \<Rightarrow> v),
                   s_i := j,
                   s_arclength := s_arclength st + step_length \<rparr>)
      | Inr (Exhausted l d) \<Rightarrow>
          Inr (st\<lparr> s_arclength := s_arclength st + step_length,
                   s_terminate := (l + d < step_length) \<rparr>))"

partial_function (option) sample_while ::
  "mat \<Rightarrow> real \<Rightarrow> real list option \<Rightarrow> sampler_state \<Rightarrow> (error + sampler_state) option" where
  "sample_while X step_length t st =
     (if s_i st < length X - 1 \<and> \<not> s_terminate st
      then (case sample_step X step_length t st of
              Inl e \<Rightarrow> Some (Inl e)
            | Inr st' \<Rightarrow> sample_while X step_length t st')
      else Some (Inr st))"

definition arclength_sampling ::
  "mat \<Rightarrow> real \<Rightarrow> real list option \<Rightarrow> (error + (mat \<times> real \<times> real list option)) option" where
  "arclength_sampling X step_length t =
     (if X = [] \<or> t = Some [] then Some (Inl IndexError)
      else
        case sample_while X step_length t
               \<lparr> s_Y = [], s_x0 = X ! 0, s_T = [],
                 s_t0 = (case t of None \<Rightarrow> 0 | Some ts \<Rightarrow> ts ! 0),
                 s_i = 1, s_terminate = False, s_arclength = 0 \<rparr> of
          None \<Rightarrow> None
        | Some (Inl e) \<Rightarrow> Some (Inl e)
        | Some (Inr st) \<Rightarrow>
            Some (Inr (s_Y st, s_arclength st,
                       (case t of None \<Rightarrow> None | Some _ \<Rightarrow> Some (s_T st)))))"

section \<open>The initial path builder\<close>

text \<open>
  \<^verbatim>\<open>
  def get_init_path(G, start, end, coords, interpolation_num=20):
      source_ind = nearest_neighbors(start, coords, k=1)[0][0]
      target_ind = nearest_neighbors(end, coords, k=1)[0][0]

      path = nx.shortest_path(G, source_ind, target_ind)
      init_path = coords[path, :]

      _, arclen, _ = remove_redundant_points_trajectory(init_path, tol=1e-4, output_discard=True)
      arc_stepsize = arclen / (interpolation_num - 1)
      init_path_final, _, _ = arclength_sampling(init_path, step_length=arc_stepsize, t=np.arange(len(init_path)))

      # add the beginning and end point
      init_path_final = np.vstack((start, init_path_final, end))

      return init_path_final
  \<close>
  The nearest-neighbour lookup and the graph's shortest-path query are external collaborators
  and parameters of the model; the second raises when there is no path.  The division has no
  real value for \<^verbatim>\<open>interpolation_num = 1\<close> (Python raises on an integer numerator and yields a
  non-finite float otherwise).  \<^verbatim>\<open>np.array([])\<close> of an empty sample list is one-dimensional,
  which \<^verbatim>\<open>np.vstack\<close> promotes to a single row without columns.
\<close>

definition vstack3 :: "vec \<Rightarrow> mat \<Rightarrow> vec \<Rightarrow> error + mat" where
  "vstack3 a M b =
     (let M' = (if M = [] then [[]] else M)
      in if (\<forall>r \<in> set M'. length r = length a) \<and> length b = length a
         then Inr (a # M' @ [b]) else Inl ValueError)"

definition get_init_path ::
  "(vec \<Rightarrow> mat \<Rightarrow> nat) \<Rightarrow> ('g \<Rightarrow> nat \<Rightarrow> nat \<Rightarrow> error + nat list) \<Rightarrow> 'g \<Rightarrow> vec \<Rightarrow> vec \<Rightarrow> mat \<Rightarrow> int
     \<Rightarrow> (error + mat) option" where
  "get_init_path nearest_neighbors shortest_path G start end' coords interpolation_num =
     (let source_ind = nearest_neighbors start coords;
          target_ind = nearest_neighbors end' coords
      in case shortest_path G source_ind target_ind of
           Inl e \<Rightarrow> Some (Inl e)
         | Inr path \<Rightarrow>
             if \<exists>k \<in> set path. k \<ge> length coords then Some (Inl IndexError)
             else
               let init_path = map (\<lambda>k. coords ! k) path in
               (case remove_redundant_points_trajectory init_path (1 / 10000) of
                  Inl e \<Rightarrow> Some (Inl e)
                | Inr (_, arclen, _) \<Rightarrow>
                    if interpolation_num = 1 then Some (Inl ZeroDivisionError)
                    else
                      let arc_stepsize = arclen / real_of_int (interpolation_num - 1) in
                      (case arclength_sampling init_path arc_stepsize
                              (Some (map real [0..<length init_path])) of
                         None \<Rightarrow> None
                       | Some (Inl e) \<Rightarrow> Some (Inl e)
                       | Some (Inr (init_path_final, _, _)) \<Rightarrow>
                           Some (vstack3 start init_path_final end'))))"

section \<open>The ODE integrator\<close>

text \<open>
  \<^verbatim>\<open>scipy.integrate.odeint\<close> is an external collaborator and a parameter of the model: from the
  right-hand side, the initial state and the time grid it returns one row per grid time,
  each with one column per feature.  The caller's \<^verbatim>\<open>args\<close> are handed to it untouched and are
  not part of the model.  The batch of initial states is an \<open>ndarray\<close>; \<^verbatim>\<open>shape[1]\<close> of a
  one-dimensional array raises.
\<close>

type_synonym odeint_fun = "(vec \<Rightarrow> vec) \<Rightarrow> vec \<Rightarrow> vec \<Rightarrow> mat"

text \<open>
  On two-dimensional arrays \<^verbatim>\<open>np.hstack\<close> joins the rows of its arguments side by side and
  \<^verbatim>\<open>np.vstack\<close> puts the rows of the second below those of the first.
\<close>

definition np_hstack :: "mat \<Rightarrow> mat \<Rightarrow> mat" where
  "np_hstack A B = map2 (@) A B"

definition np_vstack :: "mat \<Rightarrow> mat \<Rightarrow> mat" where
  "np_vstack A B = A @ B"

definition np_zeros :: "nat \<Rightarrow> nat \<Rightarrow> mat" where
  "np_zeros r c = replicate r (replicate c 0)"

text \<open>\<^verbatim>\<open>np.mean(A, 0)\<close>: the mean of every column, for an array with at least one row.\<close>

definition np_mean0 :: "mat \<Rightarrow> vec" where
  "np_mean0 A = map (\<lambda>c. sum_list (map (\<lambda>r. r ! c) A) / real (length A)) [0..<length (hd A)]"

text \<open>\<^verbatim>\<open>A[idx, :]\<close> with a list of row indices.\<close>

definition take_rows :: "mat \<Rightarrow> nat list \<Rightarrow> error + mat" where
  "take_rows A idx =
     (if \<exists>k \<in> set idx. k \<ge> length A then Inl IndexError else Inr (map (\<lambda>k. A ! k) idx))"

text \<open>\<^verbatim>\<open>A[i, :] = m\<close>: the vector must have the row's length, or length one (broadcast).\<close>

definition set_row :: "mat \<Rightarrow> nat \<Rightarrow> vec \<Rightarrow> error + mat" where
  "set_row A i m =
     (if i \<ge> length A then Inl IndexError
      else if length m = length (A ! i) then Inr (A[i := m])
      else if length m = 1 then Inr (A[i := replicate (length (A ! i)) (m ! 0)])
      else Inl ValueError)"

text \<open>
  The body of the loop over the cells of \<^verbatim>\<open>integrate_vf\<close>:
  \<^verbatim>\<open>
        y0 = init_states[i, :]
        if integration_direction == "forward":
            y = scipy.integrate.odeint(lambda x, t: f(x), y0, t, args=args)
            t_trans = t
        elif integration_direction == "backward":
            y = scipy.integrate.odeint(lambda x, t: f(x), y0, -t, args=args)
            t_trans = -t
        elif integration_direction == "both":
            y_f = scipy.integrate.odeint(lambda x, t: f(x), y0, t, args=args)
            y_b = scipy.integrate.odeint(lambda x, t: f(x), y0, -t, args=args)
            y = np.hstack((y_b[::-1, :], y_f))
            t_trans = np.hstack((-t[::-1], t))
        else:
            raise Exception(
                "both, forward, backward are the only valid direction argument strings"
            )
        ...
        Y = y if Y is None else np.vstack((Y, y))
  \<close>
\<close>

definition integrate_cell ::
  "odeint_fun \<Rightarrow> vec \<Rightarrow> string \<Rightarrow> (vec \<Rightarrow> vec) \<Rightarrow> vec \<Rightarrow> error + mat" where
  "integrate_cell odeint t integration_direction f y0 =
     (if integration_direction = ''forward'' then Inr (odeint f y0 t)
      else if integration_direction = ''backward'' then Inr (odeint f y0 (map uminus t))
      else if integration_direction = ''both'' then
        (let y_f = odeint f y0 t;
             y_b = odeint f y0 (map uminus t)
         in Inr (np_hstack (rev y_b) y_f))
      else Inl DirectionError)"

fun integrate_cells ::
  "odeint_fun \<Rightarrow> vec \<Rightarrow> string \<Rightarrow> (vec \<Rightarrow> vec) \<Rightarrow> mat option \<Rightarrow> mat \<Rightarrow> error + mat option" where
  "integrate_cells odeint t integration_direction f Y [] = Inr Y"
| "integrate_cells odeint t integration_direction f Y (y0 # rest) =
     (case integrate_cell odeint t integration_direction f y0 of
        Inl e \<Rightarrow> Inl e
      | Inr y \<Rightarrow>
          integrate_cells odeint t integration_direction f
            (Some (case Y of None \<Rightarrow> y | Some Y' \<Rightarrow> np_vstack Y' y)) rest)"

text \<open>
  The averaging loop:
  \<^verbatim>\<open>
        t_len = int(len(t) / n_cell)
        for i in range(t_len):
            avg[i, :] = np.mean(Y[np.arange(n_cell) * t_len + i, :], 0)
        Y = avg
  \<close>
\<close>

fun average_loop :: "mat \<Rightarrow> nat \<Rightarrow> nat \<Rightarrow> mat \<Rightarrow> nat list \<Rightarrow> error + mat" where
  "average_loop Y n_cell t_len avg [] = Inr avg"
| "average_loop Y n_cell t_len avg (i # rest) =
     (case take_rows Y (map (\<lambda>c. c * t_len + i) [0..<n_cell]) of
        Inl e \<Rightarrow> Inl e
      | Inr rows \<Rightarrow>
          (case set_row avg i (np_mean0 rows) of
             Inl e \<Rightarrow> Inl e
           | Inr avg' \<Rightarrow> average_loop Y n_cell t_len avg' rest))"

text \<open>
  \<^verbatim>\<open>integrate_vf(init_states, t, args, integration_direction, f, interpolation_num=None, average=True)\<close>
  at \<^verbatim>\<open>interpolation_num=None\<close>, its default, where \<^verbatim>\<open>n_steps = len(t)\<close> and the
  re-interpolation onto a shared grid (which calls \<^verbatim>\<open>scipy.interpolate.interp1d\<close>) is skipped:
  \<^verbatim>\<open>
    n_cell, n_feature, n_steps = (init_states.shape[0], init_states.shape[1], len(t) ...)
    if n_cell > 1:
        if integration_direction == "both":
            if average:
                avg = np.zeros((n_steps * 2, n_feature))
        else:
            if average:
                avg = np.zeros((n_steps, n_feature))
    Y = None
    for i in tqdm(range(n_cell), desc="integrating vector field"):
        ...
    if n_cell > 1 and average:
        ...
    return t, Y
  \<close>
  The result \<open>Y\<close> stays \<^verbatim>\<open>None\<close> when there is no cell.  The number of features is read only
  where there are at least two cells.
\<close>

definition integrate_vf ::
  "odeint_fun \<Rightarrow> ndarray \<Rightarrow> vec \<Rightarrow> string \<Rightarrow> (vec \<Rightarrow> vec) \<Rightarrow> bool \<Rightarrow> error + (vec \<times> mat option)" where
  "integrate_vf odeint init_states t integration_direction f average =
     (case init_states of
        Arr1 _ \<Rightarrow> Inl IndexError
      | Arr2 cells \<Rightarrow>
          (let n_cell = length cells;
               n_feature = (if cells = [] then 0 else length (hd cells));
               n_steps = length t;
               avg = (if integration_direction = ''both'' then np_zeros (n_steps * 2) n_feature
                      else np_zeros n_steps n_feature)
           in case integrate_cells odeint t integration_direction f None cells of
                Inl e \<Rightarrow> Inl e
              | Inr Y \<Rightarrow>
                  if n_cell > 1 \<and> average then
                    (case Y of
                       None \<Rightarrow> Inl TypeError
                     | Some Y' \<Rightarrow>
                         (let t_len = length t div n_cell
                          in case average_loop Y' n_cell t_len avg [0..<t_len] of
                               Inl e \<Rightarrow> Inl e
                             | Inr avg' \<Rightarrow> Inr (t, Some avg')))
                  else Inr (t, Y)))"

section \<open>The fate prediction entry point\<close>

text \<open>
  \<^verbatim>\<open>prediction[a:b, :] = y\<close>: the value must have the shape of the slice or broadcast to it;
  \<^verbatim>\<open>None\<close> cannot be stored in a float array.
\<close>

definition broadcast_rows :: "nat \<Rightarrow> nat \<Rightarrow> mat \<Rightarrow> error + mat" where
  "broadcast_rows r c Y =
     (let Y1 = (if \<forall>row \<in> set Y. length row = c then Some Y
                else if \<forall>row \<in> set Y. length row = 1
                then Some (map (\<lambda>row. replicate c (row ! 0)) Y)
                else None)
      in case Y1 of
           None \<Rightarrow> Inl ValueError
         | Some Y2 \<Rightarrow>
             if length Y2 = r then Inr Y2
             else if length Y2 = 1 then Inr (replicate r (Y2 ! 0))
             else Inl ValueError)"

definition assign_rows :: "mat \<Rightarrow> nat \<Rightarrow> nat \<Rightarrow> nat \<Rightarrow> mat option \<Rightarrow> error + mat" where
  "assign_rows prediction a b n_feature y =
     (case y of
        None \<Rightarrow> Inl TypeError
      | Some Y \<Rightarrow>
          (case broadcast_rows (min b (length prediction) - a) n_feature Y of
             Inl e \<Rightarrow> Inl e
           | Inr Y' \<Rightarrow> Inr (take a prediction @ Y' @ drop b prediction)))"

text \<open>
  The inner loop of \<^verbatim>\<open>fate\<close>:
  \<^verbatim>\<open>
            for j in range(len(t)):
                avg[j, :] = np.mean(prediction[np.array(range(n_cell)) * n_steps + i, :], 0)
  \<close>
\<close>

fun fate_avg_loop :: "mat \<Rightarrow> nat \<Rightarrow> nat \<Rightarrow> nat \<Rightarrow> mat \<Rightarrow> nat list \<Rightarrow> error + mat" where
  "fate_avg_loop prediction n_cell n_steps i avg [] = Inr avg"
| "fate_avg_loop prediction n_cell n_steps i avg (j # rest) =
     (case take_rows prediction (map (\<lambda>c. c * n_steps + i) [0..<n_cell]) of
        Inl e \<Rightarrow> Inl e
      | Inr rows \<Rightarrow>
          (case set_row avg j (np_mean0 rows) of
             Inl e \<Rightarrow> Inl e
           | Inr avg' \<Rightarrow> fate_avg_loop prediction n_cell n_steps i avg' rest))"

text \<open>
  The loop over the cells of \<^verbatim>\<open>fate\<close>, the same in both branches up to the factor \<open>k\<close> (2 for
  \<^verbatim>\<open>'both'\<close>, 1 otherwise):
  \<^verbatim>\<open>
        for i in range(n_cell):
            t, y = integrate_vf(init_states[i, :], t_linspace, (), direction, V_func)
            prediction[(n_steps * i * 2):(n_steps * (i + 1) * 2), :] = y
            for j in range(len(t)):
                ...
  \<close>
  The integrator is called on the row \<^verbatim>\<open>init_states[i, :]\<close>, a one-dimensional array, with its
  default \<^verbatim>\<open>average=True\<close>.
\<close>

fun fate_loop ::
  "odeint_fun \<Rightarrow> (vec \<Rightarrow> vec) \<Rightarrow> mat \<Rightarrow> vec \<Rightarrow> string \<Rightarrow> nat \<Rightarrow> nat \<Rightarrow> nat \<Rightarrow> nat
     \<Rightarrow> vec option \<times> mat \<times> mat \<Rightarrow> nat list \<Rightarrow> error + (vec option \<times> mat \<times> mat)" where
  "fate_loop odeint V_func cells t_linspace direction k n_cell n_feature n_steps st [] = Inr st"
| "fate_loop odeint V_func cells t_linspace direction k n_cell n_feature n_steps
       (t, prediction, avg) (i # rest) =
     (case integrate_vf odeint (Arr1 (cells ! i)) t_linspace direction V_func True of
        Inl e \<Rightarrow> Inl e
      | Inr (t', y) \<Rightarrow>
          (case assign_rows prediction (n_steps * i * k) (n_steps * (i + 1) * k) n_feature y of
             Inl e \<Rightarrow> Inl e
           | Inr prediction' \<Rightarrow>
               (case fate_avg_loop prediction' n_cell n_steps i avg [0..<length t'] of
                  Inl e \<Rightarrow> Inl e
                | Inr avg' \<Rightarrow>
                    fate_loop odeint V_func cells t_linspace direction k n_cell n_feature n_steps
                      (Some t', prediction', avg') rest)))"

text \<open>
  \<^verbatim>\<open>
  def fate(VecFld, init_states, VecFld_true = None, t_end=1, step_size=None, direction='both', average=False):
      V_func = ...
      ... t_linspace = ...
      n_cell, n_feature, n_steps = init_states.shape[0], init_states.shape[1], len(t_linspace)

      if direction == 'both':
          prediction = np.zeros((n_cell * n_steps * 2, n_feature))
          avg = np.zeros((n_steps * 2, n_feature))
          for i in range(n_cell): ...
      elif direction in ['forward', 'backward']:
          prediction = np.zeros((n_cell * n_steps, n_feature))
          avg = np.zeros((n_steps, n_feature))
          for i in range(n_cell): ...
      else:
          raise Exception('both, forward, backward are the only valid direction argument strings')

      if average: prediction = avg

      return t, prediction, avg
  \<close>
  The vector field \<^verbatim>\<open>V_func\<close> and the time grid \<^verbatim>\<open>t_linspace\<close> (built by \<^verbatim>\<open>np.linspace\<close> or
  \<^verbatim>\<open>np.arange\<close> from \<^verbatim>\<open>t_end\<close> and \<^verbatim>\<open>step_size\<close>) are arguments of the model.  The variable
  \<open>t\<close> is bound only inside the loop.
\<close>

definition fate ::
  "odeint_fun \<Rightarrow> (vec \<Rightarrow> vec) \<Rightarrow> ndarray \<Rightarrow> vec \<Rightarrow> string \<Rightarrow> bool \<Rightarrow> error + (vec \<times> mat \<times> mat)" where
  "fate odeint V_func init_states t_linspace direction average =
     (case init_states of
        Arr1 _ \<Rightarrow> Inl IndexError
      | Arr2 cells \<Rightarrow>
          (let n_cell = length cells;
               n_feature = (if cells = [] then 0 else length (hd cells));
               n_steps = length t_linspace;
               looped =
                 (if direction = ''both'' then
                    fate_loop odeint V_func cells t_linspace direction 2 n_cell n_feature n_steps
                      (None, np_zeros (n_cell * n_steps * 2) n_feature,
                       np_zeros (n_steps * 2) n_feature) [0..<n_cell]
                  else if direction \<in> set [''forward'', ''backward''] then
                    fate_loop odeint V_func cells t_linspace direction 1 n_cell n_feature n_steps
                      (None, np_zeros (n_cell * n_steps) n_feature,
                       np_zeros n_steps n_feature) [0..<n_cell]
                  else Inl DirectionError)
           in case looped of
                Inl e \<Rightarrow> Inl e
              | Inr (t, prediction, avg) \<Rightarrow>
                  (case t of
                     None \<Rightarrow> Inl UnboundLocalError
                   | Some t' \<Rightarrow> Inr (t', if average then avg else prediction, avg))))"

section \<open>A stand-in for the external integrator\<close>

text \<open>
  To run the integrator's model on a concrete input its external solver needs a value:
  the explicit Euler method along the grid, which on a constant field is the exact solution
  \<open>y0 + c * (t\<^sub>k - t\<^sub>0)\<close>.
\<close>

fun odeint_euler_from :: "(vec \<Rightarrow> vec) \<Rightarrow> vec \<Rightarrow> real \<Rightarrow> vec \<Rightarrow> mat" where
  "odeint_euler_from f y tprev [] = []"
| "odeint_euler_from f y tprev (tn # ts) =
     (let y' = vadd y (smul (f y) (tn - tprev)) in y' # odeint_euler_from f y' tn ts)"

definition odeint_euler :: odeint_fun where
  "odeint_euler f y0 ts = (case ts of [] \<Rightarrow> [] | t0 # rest \<Rightarrow> y0 # odeint_euler_from f y0 t0 rest)"

text \<open>
  A state of the sampler's \<^verbatim>\<open>while\<close> loop before any point was emitted from a polyline
  starting at the origin of the line: only the accumulated arclength varies.
\<close>

definition stuck :: "real \<Rightarrow> sampler_state" where
  "stuck a = \<lparr> s_Y = [], s_x0 = [0], s_T = [], s_t0 = 0, s_i = 1, s_terminate = False,
               s_arclength = a \<rparr>"

section \<open>Properties of the action functional\<close>

lemmas vec_defs = vsub_def vadd_def vdiv_def smul_def

lemma dot_self_nonneg: "0 \<le> dot a a"
  unfolding dot_def by (induction a) simp_all

lemma linalg_norm_sq: "(linalg_norm a)\<^sup>2 = dot a a"
  unfolding linalg_norm_def by (simp add: dot_self_nonneg)

lemma linalg_norm_single: "linalg_norm [x] = \<bar>x\<bar>"
  unfolding linalg_norm_def dot_def by simp

lemma dot_append_self: "dot (a @ b) (a @ b) = dot a a + dot b b"
  unfolding dot_def by simp

lemma dot_concat_self: "dot (concat rs) (concat rs) = sum_list (map (\<lambda>r. dot r r) rs)"
  by (induction rs) (simp_all add: dot_append_self, simp add: dot_def)

lemma sum_list_pairs_nth:
  fixes g :: "'a \<Rightarrow> 'a \<Rightarrow> real"
  shows "sum_list (map2 g (butlast p) (tl p)) = (\<Sum>i<length p - 1. g (p ! i) (p ! Suc i))"
proof -
  have len: "length (map2 g (butlast p) (tl p)) = length p - 1"
    by simp
  have "sum_list (map2 g (butlast p) (tl p))
        = (\<Sum>i = 0..<length p - 1. map2 g (butlast p) (tl p) ! i)"
    using sum_list_sum_nth [of "map2 g (butlast p) (tl p)"] len by simp
  also have "\<dots> = (\<Sum>i = 0..<length p - 1. g (p ! i) (p ! Suc i))"
    by (rule sum.cong) (simp_all add: nth_butlast nth_tl)
  finally show ?thesis
    by (simp add: lessThan_atLeast0)
qed

text \<open>The residual rows of the action, one per segment, for a field applied row by row.\<close>

lemma action_rows:
  "map2 vsub (map (\<lambda>r. vdiv r dt) (np_diff path))
        (map f (map (\<lambda>r. smul r 0.5) (map2 vadd (butlast path) (tl path))))
   = map2 (\<lambda>a b. vsub (vdiv (vsub b a) dt) (f (smul (vadd a b) 0.5))) (butlast path) (tl path)"
proof -
  have "np_diff path = map (\<lambda>(a, b). vsub b a) (zip (butlast path) (tl path))"
    unfolding np_diff_def
    by (rule nth_equalityI) (simp_all)
  then show ?thesis
    by (simp add: zip_map_map zip_same_conv_map comp_def case_prod_unfold)
qed

text \<open>
  Claim C6.  For a vector field \<open>f\<close> applied to every midpoint, the action of a path
  \<open>x\<^sub>0 .. x\<^sub>N\<close> is \<open>dt / (2 D)\<close> times the sum over the segments of the squared
  Euclidean norm of \<open>v\<^sub>i - f m\<^sub>i\<close>, with midpoint \<open>m\<^sub>i = (x\<^sub>i + x\<^sub>i\<^sub>+\<^sub>1) / 2\<close> and
  finite-difference velocity \<open>v\<^sub>i = (x\<^sub>i\<^sub>+\<^sub>1 - x\<^sub>i) / dt\<close>.  For positive \<open>D\<close> and \<open>dt\<close> the
  value is non-negative, and it is zero on a path of a single point.
\<close>

theorem action_formula:
  "action path (map f) D dt =
     dt / (2 * D) *
       (\<Sum>i<length path - 1.
          (linalg_norm (vsub (vdiv (vsub (path ! Suc i) (path ! i)) dt)
                             (f (smul (vadd (path ! i) (path ! Suc i)) 0.5))))\<^sup>2)
   \<and> (0 < D \<longrightarrow> 0 < dt \<longrightarrow> 0 \<le> action path (map f) D dt)
   \<and> (0 < D \<longrightarrow> 0 < dt \<longrightarrow> action [p] (map f) D dt = 0)"
proof -
  let ?g = "\<lambda>a b. vsub (vdiv (vsub b a) dt) (f (smul (vadd a b) 0.5))"
  let ?S = "sum_list (map2 (\<lambda>a b. dot (?g a b) (?g a b)) (butlast path) (tl path))"
  have act: "action path (map f) D dt = 0.5 * ?S * dt / D"
    unfolding action_def Let_def action_rows dot_concat_self
    by (simp add: comp_def case_prod_unfold)
  have S: "?S = (\<Sum>i<length path - 1. (linalg_norm (?g (path ! i) (path ! Suc i)))\<^sup>2)"
    unfolding linalg_norm_sq by (rule sum_list_pairs_nth)
  have nonneg: "0 \<le> ?S"
    by (rule sum_list_nonneg) (auto simp: dot_self_nonneg)
  have one: "action [p] (map f) D dt = 0"
    unfolding action_def np_diff_def dot_def by simp
  have "0 < D \<Longrightarrow> 0 < dt \<Longrightarrow> 0 \<le> 0.5 * ?S * dt / D"
    using nonneg by simp
  with act S one show ?thesis
    by simp
qed

theorem action_formula_witness:
  "(0::real) < 1 \<and> (0::real) < 2
   \<and> action [[0], [1], [3]] (map (\<lambda>x. [1])) 1 2 = 1 / 4
   \<and> 0 \<le> action [[0], [1], [3]] (map (\<lambda>x. [1])) 1 2
   \<and> action [[5]] (map (\<lambda>x. [1])) 1 2 = 0"
proof -
  have v: "action [[0], [1], [3]] (map (\<lambda>x. [1])) 1 2 = 1 / 4"
    unfolding action_def np_diff_def dot_def vsub_def vdiv_def vadd_def smul_def
    by simp
  from action_formula [of "[[0], [1], [3]]" "\<lambda>x. [1]" 1 2 "[5]"] v
  show ?thesis by simp
qed


section \<open>The objective handed to the minimizer\<close>

lemma least_action_path_fun_no_value:
  "least_action_path_fun vf_func dim' path_0 D dt_0 x \<noteq> Inr (Some a)"
  by (simp add: least_action_path_fun_def split: sum.splits)

lemma least_action_path_jac_no_value:
  "least_action_path_jac vf_func jac_func dim' path_0 D dt_0 x \<noteq> Inr (Some g)"
  by (simp add: least_action_path_jac_def split: sum.splits)

text \<open>
  Claim C1.  The claim says that the objective handed to the minimizer, at an interior-point
  vector \<open>x\<close>, is the action of the path assembled from the fixed first point, \<open>x\<close> and the
  fixed last point, and that the gradient callback is the analytic gradient of that path.
  Neither closure returns the value it computes.  On the seed \<open>0, 1, 2\<close> of the line with the
  zero field, at the interior point \<open>1\<close>, the assembled path has action 1 and both callbacks
  return \<^verbatim>\<open>None\<close>.
\<close>

theorem least_action_path_fun_returns_None:
  "least_action_path_fun (map (\<lambda>x. [0])) 1 [[0], [1], [2]] 1 1 [1] = Inr None
   \<and> action_aux [1] (map (\<lambda>x. [0])) 1 (Some [0]) (Some [2]) 1 1 = Inr 1
   \<and> least_action_path_jac (map (\<lambda>x. [0])) (\<lambda>x. [[map (\<lambda>r. 0) x]]) 1 [[0], [1], [2]] 1 1 [1]
       = Inr None"
  by (simp add: least_action_path_fun_def least_action_path_jac_def first_row_def last_row_def
      action_aux_def action_grad_aux_def reshape_path_def action_def np_diff_def dot_def
      vec_defs)

section \<open>Direction 'both'\<close>

text \<open>
  For any solver, the rows of direction \<^verbatim>\<open>'both'\<close> are, cell after cell, the rows of the
  reversed backward run each joined with the row of the forward run at the same position.
\<close>

lemma integrate_cells_both:
  "integrate_cells odeint t ''both'' f Y cells =
     Inr (if cells = [] then Y
          else Some ((case Y of None \<Rightarrow> [] | Some Y' \<Rightarrow> Y') @
                 concat (map (\<lambda>y0. np_hstack (rev (odeint f y0 (map uminus t))) (odeint f y0 t))
                             cells)))"
proof (induction cells arbitrary: Y)
  case Nil
  then show ?case by simp
next
  case (Cons y0 cells)
  show ?case
    by (cases Y) (simp_all add: Cons.IH integrate_cell_def np_vstack_def)
qed

lemma np_hstack_shape:
  "length (np_hstack A B) = min (length A) (length B)"
  "i < length A \<Longrightarrow> i < length B \<Longrightarrow> length (np_hstack A B ! i) = length (A ! i) + length (B ! i)"
  by (simp_all add: np_hstack_def)

text \<open>
  For a solver that returns one row per grid time, a batch of \<open>n_cell\<close> cells therefore
  gives \<open>n_cell * n_steps\<close> rows, whether or not the direction is \<^verbatim>\<open>'both'\<close>.
\<close>

lemma integrate_vf_both_rows:
  assumes "\<And>f y0 ts. length (odeint f y0 ts) = length ts" and "cells \<noteq> []"
  shows "\<exists>Y. integrate_vf odeint (Arr2 cells) t ''both'' f False = Inr (t, Some Y)
            \<and> length Y = length cells * length t"
  using assms
  by (simp add: integrate_vf_def integrate_cells_both length_concat comp_def np_hstack_shape
      sum_list_triv)

text \<open>
  Claim C2.  The claim says that for direction \<^verbatim>\<open>'both'\<close> the states are the rows of the
  backward run in reversed order followed by the rows of the forward run, so that one cell
  and a grid of \<open>n_steps\<close> times give \<open>2 * n_steps\<close> rows of \<open>n_feature\<close> columns.  For the
  cell at 0 of the line, the grid \<open>0, 1\<close> and the constant field 1 the backward run is
  \<open>0, -1\<close> and the forward run is \<open>0, 1\<close>: the claimed states are the four rows
  \<open>-1, 0, 0, 1\<close>.  The integrator returns two rows of two columns.
\<close>

theorem integrate_vf_both_shape:
  "integrate_vf odeint_euler (Arr2 [[0]]) [0, 1] ''both'' (\<lambda>x. [1]) False
     = Inr ([0, 1], Some [[- 1, 0], [0, 1]])"
  by (simp add: integrate_vf_def integrate_cell_def odeint_euler_def np_hstack_def vec_defs)

section \<open>Averaging over the batch\<close>

text \<open>
  Claim C3.  The claim says that with averaging and more than one cell, row \<open>j\<close> of the result
  is the mean over the cells of their states at time step \<open>j\<close>.  For the cells at 0 and 10 of
  the line, the grid \<open>0, 1\<close> and the constant field 1 the forward runs are \<open>0, 1\<close> and
  \<open>10, 11\<close>: the claimed result is \<open>5, 6\<close>.  The integrator returns \<open>1/2, 0\<close>: the mean of
  the first cell's two time steps, and a row that was never written.
\<close>

theorem integrate_vf_average_value:
  "integrate_vf odeint_euler (Arr2 [[0], [10]]) [0, 1] ''forward'' (\<lambda>x. [1]) True
     = Inr ([0, 1], Some [[1 / 2], [0]])"
  by (simp add: integrate_vf_def integrate_cell_def odeint_euler_def np_vstack_def vec_defs
      np_zeros_def take_rows_def set_row_def np_mean0_def)

section \<open>The redundant-point filter\<close>

lemma keep_rows_nths:
  "length d = length X \<Longrightarrow> keep_rows X d = nths X {i. \<not> d ! i}"
proof (induction X arbitrary: d)
  case Nil
  then show ?case by (simp add: keep_rows_def)
next
  case (Cons x X)
  then obtain b ds where d: "d = b # ds" and len: "length ds = length X"
    by (cases d) auto
  have "keep_rows (x # X) (b # ds) = (if b then [] else [x]) @ keep_rows X ds"
    by (simp add: keep_rows_def)
  with Cons.IH [OF len] d show ?case
    by (simp add: nths_Cons)
qed

lemma discard_flags_length: "length (discard_flags X tol) = length X"
  by (cases X) (simp_all add: discard_flags_def)

lemma discard_flags_0: "X \<noteq> [] \<Longrightarrow> \<not> discard_flags X tol ! 0"
  by (cases X) (simp_all add: discard_flags_def)

lemma discard_flags_Suc:
  "i + 1 < length X \<Longrightarrow>
     discard_flags X tol ! (i + 1) = (linalg_norm (vsub (X ! (i + 1)) (X ! i)) < tol)"
proof -
  assume h: "i + 1 < length X"
  then have "i < length X - 1" by simp
  then have "[0..<length X - 1] ! i = i" by simp
  with h show ?thesis by (simp add: discard_flags_def)
qed

lemma keep_rows_all: "length X \<le> 1 \<Longrightarrow> keep_rows X (discard_flags X tol) = X"
  by (cases X) (simp_all add: keep_rows_def discard_flags_def)

text \<open>
  Claim C4, as stated: the filter compares every point with the last retained point, so
  that two consecutive points of the output are at least \<open>tol\<close> apart.  It fails on the
  path \<open>0, 0.00009, -0.00005\<close> of the line with \<open>tol = 0.0001\<close>: the second point is
  dropped for being close to the first, the third is kept for being far from the second,
  and the output \<open>0, -0.00005\<close> has its two points \<open>0.00005\<close> apart.
\<close>

theorem remove_redundant_points_counterexample:
  "remove_redundant_points_trajectory [[0], [9 / 100000], [- 5 / 100000]] (1 / 10000)
     = Inr ([[0], [- 5 / 100000]], 5 / 100000, [False, True, False])
   \<and> linalg_norm (vsub [- 5 / 100000] [0]) < 1 / 10000"
  by (simp add: remove_redundant_points_trajectory_def discard_flags_def keep_rows_def
      polyline_length_def linalg_norm_single vec_defs upt_conv_Cons)

lemma keep_rows_first:
  "X \<noteq> [] \<Longrightarrow> keep_rows X (discard_flags X tol) \<noteq> []
     \<and> hd (keep_rows X (discard_flags X tol)) = hd X"
  by (cases X) (simp_all add: keep_rows_def discard_flags_def)

text \<open>The length that the filter's second loop adds up is the sum of the segment lengths.\<close>

lemma polyline_length_sum:
  "polyline_length Y = (\<Sum>i<length Y - 1. linalg_norm (vsub (Y ! Suc i) (Y ! i)))"
proof -
  have "polyline_length Y
          = sum_list (map (\<lambda>i. linalg_norm (vsub (Y ! i) (Y ! (i - 1)))) [1..<length Y])"
    unfolding polyline_length_def by (rule arg_cong [where f = sum_list]) simp
  also have "\<dots> = (\<Sum>i = 1..<length Y. linalg_norm (vsub (Y ! i) (Y ! (i - 1))))"
    by (simp add: interv_sum_list_conv_sum_set_nat)
  also have "\<dots> = (\<Sum>i = 0..<length Y - 1. linalg_norm (vsub (Y ! Suc i) (Y ! i)))"
  proof (cases Y)
    case Nil
    then show ?thesis by simp
  next
    case (Cons y ys)
    then show ?thesis
      using sum.shift_bounds_Suc_ivl
        [of "\<lambda>i. linalg_norm (vsub (Y ! i) (Y ! (i - 1)))" 0 "length ys"]
      by simp
  qed
  finally show ?thesis by (simp add: lessThan_atLeast0)
qed

text \<open>
  Claim C4, amended: the filter compares every point with its predecessor in the input
  array.  On every input with at least one row it returns: the rows whose flag is not set,
  in order; the first row is always among them; the row at \<open>i + 1\<close> is retained exactly when
  its distance to the input row at \<open>i\<close> is at least \<open>tol\<close>; and the returned arclength is
  the sum of the distances between consecutive retained rows.  On an input without rows it
  raises.
\<close>

theorem remove_redundant_points_neighbour:
  "remove_redundant_points_trajectory [] tol = Inl IndexError
   \<and> (X \<noteq> [] \<longrightarrow>
       (\<exists>Y arclen discard.
          remove_redundant_points_trajectory X tol = Inr (Y, arclen, discard)
          \<and> length discard = length X
          \<and> Y = nths X {i. \<not> discard ! i}
          \<and> \<not> discard ! 0 \<and> Y \<noteq> [] \<and> hd Y = hd X
          \<and> (\<forall>i. i + 1 < length X \<longrightarrow>
                (\<not> discard ! (i + 1)) = (tol \<le> linalg_norm (vsub (X ! (i + 1)) (X ! i))))
          \<and> arclen = (\<Sum>i<length Y - 1. linalg_norm (vsub (Y ! Suc i) (Y ! i)))))"
proof (intro conjI impI)
  show "remove_redundant_points_trajectory [] tol = Inl IndexError"
    by (simp add: remove_redundant_points_trajectory_def discard_flags_def)
next
  assume X: "X \<noteq> []"
  let ?d = "discard_flags X tol"
  let ?Y = "keep_rows X ?d"
  have Yk: "(if length X > 1 then ?Y else X) = ?Y"
    using keep_rows_all [of X tol] by simp
  have ne: "?Y \<noteq> []" and hd: "hd ?Y = hd X"
    using keep_rows_first [OF X, of tol] by simp_all
  have run: "remove_redundant_points_trajectory X tol = Inr (?Y, polyline_length ?Y, ?d)"
  proof (cases "length X > 1")
    case True
    with ne show ?thesis
      by (simp add: remove_redundant_points_trajectory_def Let_def)
  next
    case False
    with Yk have "?Y = X" by simp
    with False X show ?thesis
      by (simp add: remove_redundant_points_trajectory_def Let_def)
  qed
  have len: "length ?d = length X"
    by (rule discard_flags_length)
  have Yn: "?Y = nths X {i. \<not> ?d ! i}"
    by (rule keep_rows_nths [OF len])
  have d0: "\<not> ?d ! 0"
    by (rule discard_flags_0 [OF X])
  have nb: "\<forall>i. i + 1 < length X \<longrightarrow>
           (\<not> ?d ! (i + 1)) = (tol \<le> linalg_norm (vsub (X ! (i + 1)) (X ! i)))"
    using discard_flags_Suc [of _ X tol] by (auto simp: not_less)
  have al: "polyline_length ?Y = (\<Sum>i<length ?Y - 1. linalg_norm (vsub (?Y ! Suc i) (?Y ! i)))"
    by (rule polyline_length_sum)
  from run len Yn d0 ne hd nb al
  show "\<exists>Y arclen discard.
          remove_redundant_points_trajectory X tol = Inr (Y, arclen, discard)
          \<and> length discard = length X
          \<and> Y = nths X {i. \<not> discard ! i}
          \<and> \<not> discard ! 0 \<and> Y \<noteq> [] \<and> hd Y = hd X
          \<and> (\<forall>i. i + 1 < length X \<longrightarrow>
                (\<not> discard ! (i + 1)) = (tol \<le> linalg_norm (vsub (X ! (i + 1)) (X ! i))))
          \<and> arclen = (\<Sum>i<length Y - 1. linalg_norm (vsub (Y ! Suc i) (Y ! i)))"
    by blast
qed

theorem remove_redundant_points_neighbour_witness:
  "[[0], [1 / 100000], [1], [3 :: real]] \<noteq> []
   \<and> remove_redundant_points_trajectory [[0], [1 / 100000], [1], [3]] (1 / 10000)
       = Inr ([[0], [1], [3]], 3, [False, True, False, False])
   \<and> [[0], [1], [3 :: real]] = nths [[0], [1 / 100000], [1], [3]] {0, 2, 3}
   \<and> (\<not> [False, True, False, False] ! 1)
       = (1 / 10000 \<le> linalg_norm (vsub ([[0], [1 / 100000], [1], [3]] ! 1)
                                         ([[0], [1 / 100000], [1], [3]] ! 0)))
   \<and> (\<not> [False, True, False, False] ! 2)
       = (1 / 10000 \<le> linalg_norm (vsub ([[0], [1 / 100000], [1], [3]] ! 2)
                                         ([[0], [1 / 100000], [1], [3]] ! 1)))
   \<and> (3 :: real) = (\<Sum>i<length [[0], [1], [3 :: real]] - 1.
                       linalg_norm (vsub ([[0], [1], [3]] ! Suc i) ([[0], [1], [3]] ! i)))"
proof -
  let ?X = "[[0], [1 / 100000], [1], [3 :: real]]"
  have e: "remove_redundant_points_trajectory ?X (1 / 10000)
             = Inr ([[0], [1], [3]], 3, [False, True, False, False])"
    by (simp add: remove_redundant_points_trajectory_def discard_flags_def keep_rows_def
        polyline_length_def linalg_norm_single vec_defs upt_conv_Cons)
  have X: "?X \<noteq> []" by simp
  from remove_redundant_points_neighbour [of "1 / 10000" ?X] X
  obtain Y arclen discard where
    r: "remove_redundant_points_trajectory ?X (1 / 10000) = Inr (Y, arclen, discard)"
    and nb: "\<forall>i. i + 1 < length ?X \<longrightarrow>
                (\<not> discard ! (i + 1)) = (1 / 10000 \<le> linalg_norm (vsub (?X ! (i + 1)) (?X ! i)))"
    and al: "arclen = (\<Sum>i<length Y - 1. linalg_norm (vsub (Y ! Suc i) (Y ! i)))"
    by blast
  from r e have Y: "Y = [[0], [1], [3]]" and a: "arclen = 3"
    and d: "discard = [False, True, False, False]"
    by simp_all
  from nb [rule_format, of 0] d
  have one: "(\<not> [False, True, False, False] ! 1)
       = (1 / 10000 \<le> linalg_norm (vsub (?X ! 1) (?X ! 0)))"
    by simp
  from nb [rule_format, of 1] d
  have two: "(\<not> [False, True, False, False] ! 2)
       = (1 / 10000 \<le> linalg_norm (vsub (?X ! 2) (?X ! 1)))"
    by simp
  from al Y a
  have three: "(3 :: real) = (\<Sum>i<length [[0], [1], [3 :: real]] - 1.
                       linalg_norm (vsub ([[0], [1], [3]] ! Suc i) ([[0], [1], [3]] ! i)))"
    by simp
  have sub: "[[0], [1], [3 :: real]] = nths ?X {0, 2, 3}"
    by (simp add: nths_Cons)
  from X e sub one two three show ?thesis by blast
qed

section \<open>The arclength sampler\<close>

lemma stuck_step: "sample_step [[0], [3 / 5], [5]] 1 None (stuck a) = Inr (stuck (a + 1))"
  by (simp add: sample_step_def stuck_def linalg_norm_single vec_defs upt_conv_Cons Let_def)

text \<open>
  On the polyline \<open>0, 0.6, 5\<close> with step 1 the only segment the walk looks at is shorter
  than the step, yet \<open>l + d\<close>, which counts that segment twice, is not: the loop neither
  emits nor terminates, and every iteration starts from the same state.  No run that returns
  can start there.
\<close>

lemma stuck_forever:
  assumes "sample_while X step_length t st = Some y"
  shows "\<not> (X = [[0], [3 / 5], [5]] \<and> step_length = 1 \<and> t = None \<and> (\<exists>a. st = stuck a))"
proof (rule sample_while.raw_induct
    [where P = "\<lambda>X step_length t st y.
        \<not> (X = [[0], [3 / 5], [5]] \<and> step_length = 1 \<and> t = None \<and> (\<exists>a. st = stuck a))",
     OF _ assms])
  fix f :: "mat \<Rightarrow> real \<Rightarrow> real list option \<Rightarrow> sampler_state \<Rightarrow> (error + sampler_state) option"
  fix X step_length t st y
  assume IH: "\<And>X step_length t st y. f X step_length t st = Some y \<Longrightarrow>
      \<not> (X = [[0], [3 / 5], [5]] \<and> step_length = 1 \<and> t = None \<and> (\<exists>a. st = stuck a))"
  assume eq: "(if s_i st < length X - 1 \<and> \<not> s_terminate st
      then case sample_step X step_length t st of
             Inl e \<Rightarrow> Some (Inl e) | Inr st' \<Rightarrow> f X step_length t st'
      else Some (Inr st)) = Some y"
  show "\<not> (X = [[0], [3 / 5], [5]] \<and> step_length = 1 \<and> t = None \<and> (\<exists>a. st = stuck a))"
  proof
    assume h: "X = [[0], [3 / 5], [5]] \<and> step_length = 1 \<and> t = None \<and> (\<exists>a. st = stuck a)"
    then obtain b where st: "st = stuck b" by blast
    from eq h st have "f [[0], [3 / 5], [5]] 1 None (stuck (b + 1)) = Some y"
      using stuck_step [of b] by (simp add: stuck_def)
    from IH [OF this] show False by blast
  qed
qed

lemma arclength_sampling_diverges: "arclength_sampling [[0], [3 / 5], [5]] 1 None = None"
proof (cases "sample_while [[0], [3 / 5], [5]] 1 None (stuck 0)")
  case None
  then show ?thesis by (simp add: arclength_sampling_def stuck_def)
next
  case (Some y)
  from stuck_forever [OF this] show ?thesis by blast
qed

text \<open>
  Claim C8.  The claim says that the sampler stops exactly when less than \<open>step_length\<close> of
  the polyline remains between the last emitted point and the final input point, and that
  the returned arclength is the multiple of \<open>step_length\<close> covered by the emitted points.
  On the polyline \<open>0, 1, 3\<close> with step 1 the sampler emits the single point 1, with twice
  the step still ahead of it, and returns the arclength 2 for one emitted point.  On the
  polyline \<open>0, 0.6, 5\<close> with step 1 it does not stop at all.
\<close>

theorem arclength_sampling_stops_early:
  "arclength_sampling [[0], [1], [3]] 1 None = Some (Inr ([[1]], 2, None))
   \<and> arclength_sampling [[0], [3 / 5], [5]] 1 None = None"
proof -
  have "arclength_sampling [[0], [1], [3]] 1 None = Some (Inr ([[1]], 2, None))"
    unfolding arclength_sampling_def
    by (simp add: sample_while.simps sample_step_def linalg_norm_single vec_defs upt_conv_Cons)
  with arclength_sampling_diverges show ?thesis by simp
qed

section \<open>The initial path\<close>

lemma get_init_path_ends:
  assumes "get_init_path nn sp G start end' coords k = Some (Inr p)"
  shows "hd p = start \<and> last p = end' \<and> 3 \<le> length p"
  using assms
  by (auto simp: get_init_path_def vstack3_def Let_def Suc_le_eq
           split: sum.splits option.splits if_splits prod.splits)

text \<open>
  Claim C7.  The claim says that the builder returns \<open>target_point_count + 1\<close> points: the
  start, the shortest-path polyline deduplicated and resampled with
  \<open>target_point_count - 1\<close> steps, and the end.  For the three cells at \<open>0, 1, 3\<close> of the
  line, joined in this order by the graph, the start 0, the end 3 and a target count of 4
  the polyline has length 3 and the step is 1: the claimed path has the five points
  \<open>0, 1, 2, 3, 3\<close>.  The builder returns the three points \<open>0, 1, 3\<close>.
\<close>

theorem get_init_path_point_count:
  "get_init_path (\<lambda>p cs. if p = [0] then 0 else 2) (\<lambda>G a b. Inr [0, 1, 2]) ()
       [0] [3] [[0], [1], [3]] 4
     = Some (Inr [[0], [1], [3]])"
  unfolding get_init_path_def arclength_sampling_def remove_redundant_points_trajectory_def
  by (simp add: sample_while.simps sample_step_def linalg_norm_single vec_defs upt_conv_Cons
      discard_flags_def keep_rows_def polyline_length_def vstack3_def)

section \<open>The path returned by the solver\<close>

text \<open>
  The path that \<^verbatim>\<open>reshape_path\<close> assembles around a flat vector of interior points starts
  with the boundary point given as \<^verbatim>\<open>start\<close>, ends with the one given as \<^verbatim>\<open>end\<close>, and has
  the vector's entries in between.  \<^verbatim>\<open>least_action_path\<close> calls it with the first and last
  rows of the seed \<^verbatim>\<open>path_0\<close>.
\<close>

lemma chunks_concat: "n * d = length xs \<Longrightarrow> concat (chunks n d xs) = xs"
proof (induction n arbitrary: xs)
  case 0
  then show ?case by simp
next
  case (Suc n)
  then have "n * d = length (drop d xs)" by simp
  from Suc.IH [OF this] show ?case by simp
qed

lemma reshape_path_ends:
  assumes "0 < d" and "length x = n * d" and "length s = d" and "length e = d"
  shows "\<exists>path. reshape_path x d (Some s) (Some e) = Inr path
           \<and> hd path = s \<and> last path = e \<and> concat (butlast (tl path)) = x"
proof -
  from assms(1,2) have dv: "length x div d = n" by simp
  have "reshape_path x d (Some s) (Some e) = Inr (s # chunks n d x @ [e])"
    using assms dv by (simp add: reshape_path_def)
  moreover have "concat (butlast (tl (s # chunks n d x @ [e]))) = x"
    using chunks_concat [of n d x] assms(2) by (simp add: butlast_append)
  ultimately show ?thesis by simp
qed

text \<open>
  Both callbacks raise or return \<^verbatim>\<open>None\<close> (lemma \<open>least_action_path_fun_no_value\<close>), and
  the minimizer evaluates the objective at its start value before it searches: the first
  call of \<^verbatim>\<open>minimize\<close> raises whatever the search would do, and so does the solver.
\<close>

lemma scipy_minimize_no_value:
  assumes "\<And>v a. objective v \<noteq> Inr (Some a)"
  shows "\<exists>e. scipy_minimize flattens search objective x0 jac = Inl e"
proof (cases "case x0 of Arr1 v \<Rightarrow> Inr v
                | Arr2 rows \<Rightarrow> if flattens then Inr (concat rows) else Inl ValueError")
  case (Inl e)
  then show ?thesis by (simp add: scipy_minimize_def)
next
  case (Inr v)
  show ?thesis
  proof (cases "objective v")
    case (Inl e)
    with Inr show ?thesis by (simp add: scipy_minimize_def)
  next
    case (Inr r)
    with assms [of v] obtain "r = None" by (cases r) auto
    with Inr \<open>(case x0 of Arr1 v \<Rightarrow> Inr v
                | Arr2 rows \<Rightarrow> if flattens then Inr (concat rows) else Inl ValueError) = Inr v\<close>
    show ?thesis by (simp add: scipy_minimize_def)
  qed
qed

text \<open>
  Claim C5.  The claim says that the path returned by any call of the solver has the start
  vector as its first point and the end vector as its last.  No call returns a path.
  From the start 0 and the end 1 of the line, with two segments, the default seed and the
  zero field, the objective handed to the minimizer returns \<^verbatim>\<open>None\<close> at the start value,
  and the call ends in the minimizer's type error (in its refusal of the two-dimensional
  start value, where the version refuses it).  The same holds for every argument: the call
  ends in an error, whatever the search of the minimizer would do.
\<close>

theorem least_action_path_raises:
  "least_action_path (scipy_minimize True search) [0] [1] (map (\<lambda>x. [0]))
       (\<lambda>x. [[map (\<lambda>r. 0) x]]) 2 None 1 1 = Inl TypeError
   \<and> least_action_path (scipy_minimize False search) [0] [1] (map (\<lambda>x. [0]))
       (\<lambda>x. [[map (\<lambda>r. 0) x]]) 2 None 1 1 = Inl ValueError
   \<and> (\<exists>e. least_action_path (scipy_minimize flattens search) start end' vf_func jac_func
             n_points init_path D dt_0 = Inl e)"
proof -
  have a: "least_action_path (scipy_minimize True search) [0] [1] (map (\<lambda>x. [0]))
       (\<lambda>x. [[map (\<lambda>r. 0) x]]) 2 None 1 1 = Inl TypeError"
    by (simp add: least_action_path_def scipy_minimize_def default_path_def broadcastable_def
        bcast_def linspace01_def upt_conv_Cons least_action_path_fun_def first_row_def
        last_row_def action_aux_def reshape_path_def smul_def)
  have b: "least_action_path (scipy_minimize False search) [0] [1] (map (\<lambda>x. [0]))
       (\<lambda>x. [[map (\<lambda>r. 0) x]]) 2 None 1 1 = Inl ValueError"
    by (simp add: least_action_path_def scipy_minimize_def default_path_def broadcastable_def)
  have c: "\<exists>e. least_action_path (scipy_minimize flattens search) start end' vf_func jac_func
             n_points init_path D dt_0 = Inl e"
  proof (cases "case init_path of None \<Rightarrow> default_path start end' n_points | Some p \<Rightarrow> Inr p")
    case (Inl e)
    then show ?thesis by (simp add: least_action_path_def)
  next
    case (Inr path_0)
    from scipy_minimize_no_value
      [of "least_action_path_fun vf_func (length start) path_0 D dt_0" flattens search
          "Arr2 (butlast (tl path_0))"
          "Some (least_action_path_jac vf_func jac_func (length start) path_0 D dt_0)"]
    obtain e where "scipy_minimize flattens search
        (least_action_path_fun vf_func (length start) path_0 D dt_0)
        (Arr2 (butlast (tl path_0)))
        (Some (least_action_path_jac vf_func jac_func (length start) path_0 D dt_0)) = Inl e"
      using least_action_path_fun_no_value by blast
    with Inr show ?thesis by (simp add: least_action_path_def)
  qed
  from a b c show ?thesis by blast
qed

section \<open>The direction argument\<close>

lemma integrate_cell_error:
  "(integrate_cell odeint t d f y0 = Inl e)
     = (e = DirectionError \<and> d \<notin> {''forward'', ''backward'', ''both''})"
  by (auto simp: integrate_cell_def Let_def)

lemma integrate_cells_error:
  "integrate_cells odeint t d f Y cells = Inl e
     \<Longrightarrow> e = DirectionError \<and> d \<notin> {''forward'', ''backward'', ''both''} \<and> cells \<noteq> []"
proof (induction cells arbitrary: Y)
  case Nil
  then show ?case by simp
next
  case (Cons y0 cells)
  then show ?case
    by (auto simp: integrate_cell_error split: sum.splits)
qed

lemma integrate_cells_invalid:
  "d \<notin> {''forward'', ''backward'', ''both''} \<Longrightarrow> cells \<noteq> []
     \<Longrightarrow> integrate_cells odeint t d f Y cells = Inl DirectionError"
  by (cases cells) (auto simp: integrate_cell_def)

lemma average_loop_error: "average_loop Y n_cell t_len avg js = Inl e \<Longrightarrow> e \<noteq> DirectionError"
  by (induction js arbitrary: avg)
     (auto simp: take_rows_def set_row_def split: sum.splits if_splits)

text \<open>
  With at least one cell in the batch the integrator raises the direction error exactly for
  the strings other than the three valid ones, and it does so at the first cell.
\<close>

lemma integrate_vf_direction_error:
  assumes "cells \<noteq> []"
  shows "(integrate_vf odeint (Arr2 cells) t d f average = Inl DirectionError)
           = (d \<notin> {''forward'', ''backward'', ''both''})"
proof
  assume "integrate_vf odeint (Arr2 cells) t d f average = Inl DirectionError"
  then show "d \<notin> {''forward'', ''backward'', ''both''}"
    by (auto simp: integrate_vf_def Let_def split: sum.splits if_splits option.splits
             dest: integrate_cells_error average_loop_error)
next
  assume "d \<notin> {''forward'', ''backward'', ''both''}"
  from integrate_cells_invalid [OF this assms]
  show "integrate_vf odeint (Arr2 cells) t d f average = Inl DirectionError"
    by (simp add: integrate_vf_def Let_def)
qed

text \<open>
  \<^verbatim>\<open>fate\<close> hands the integrator a one-dimensional row, on which the integrator raises when it
  reads \<^verbatim>\<open>shape[1]\<close>; its loop ends at the first cell.
\<close>

lemma integrate_vf_row: "integrate_vf odeint (Arr1 y0) t d f average = Inl IndexError"
  by (simp add: integrate_vf_def)

lemma fate_loop_result:
  "fate_loop odeint V cells t d k n_cell n_feature n_steps st js
     = (if js = [] then Inr st else Inl IndexError)"
  by (cases js; cases st) (simp_all add: integrate_vf_row)

text \<open>
  \<^verbatim>\<open>fate\<close> checks the direction before its loop: on a two-dimensional batch of any size it
  raises the direction error exactly for the strings other than the three valid ones.
\<close>

lemma fate_direction_error:
  "(fate odeint V (Arr2 cells) t d average = Inl DirectionError)
     = (d \<notin> {''forward'', ''backward'', ''both''})"
  by (auto simp: fate_def Let_def fate_loop_result split: sum.splits option.splits if_splits)

lemma fate_never_returns: "fate odeint V init_states t d average \<noteq> Inr r"
  by (cases init_states)
     (auto simp: fate_def Let_def fate_loop_result split: sum.splits option.splits if_splits)

text \<open>
  Claim C9.  The claim says that the integration entry points raise the direction error if
  and only if the direction is none of \<^verbatim>\<open>'forward'\<close>, \<^verbatim>\<open>'backward'\<close>, \<^verbatim>\<open>'both'\<close>.  The
  integrator checks the direction inside its loop over the cells: on a batch without cells
  the direction \<^verbatim>\<open>'sideways'\<close> raises nothing and the call returns the grid and \<^verbatim>\<open>None\<close>.
\<close>

theorem integrate_vf_empty_batch_no_error:
  "integrate_vf odeint_euler (Arr2 []) [0, 1] ''sideways'' (\<lambda>x. x) True = Inr ([0, 1], None)"
  by (simp add: integrate_vf_def)

section \<open>The cumulative action of a least-action path\<close>

lemma foldl_update_nth:
  "k < length a \<Longrightarrow>
     foldl (\<lambda>a i. a[i := g i]) a js ! k = (if k \<in> set js then g k else a ! k)"
proof (induction js arbitrary: a)
  case Nil
  then show ?case by simp
next
  case (Cons j js)
  have "(a[j := g j]) ! k = (if k = j then g k else a ! k)"
    using Cons.prems by (cases "j < length a") (auto simp: nth_list_update)
  with Cons.IH [of "a[j := g j]"] Cons.prems show ?case
    by auto
qed

lemma foldl_update_length: "length (foldl (\<lambda>a i. a[i := g i]) a js) = length a"
  by (induction js arbitrary: a) simp_all

text \<open>
  Claim C10.  A \<^verbatim>\<open>LeastActionPath\<close> built from a path \<open>X\<close> with time step \<open>dt\<close> keeps the
  path, the field and \<open>D\<close>; its time grid has the value \<open>i * dt\<close> at every index \<open>i\<close>; its
  cached series has the length of the path, the value 0 at index 0, and at every index
  \<open>i \<ge> 1\<close> the action of the prefix \<open>x\<^sub>0 .. x\<^sub>i\<close> under the stored field, \<open>D\<close> and \<open>dt\<close>.
\<close>

theorem LeastActionPath_init_action:
  "traj_X (LeastActionPath_init X vf_func D dt) = X
   \<and> lap_func (LeastActionPath_init X vf_func D dt) = vf_func
   \<and> lap_D (LeastActionPath_init X vf_func D dt) = D
   \<and> length (traj_t (LeastActionPath_init X vf_func D dt)) = length X
   \<and> length (lap_action (LeastActionPath_init X vf_func D dt)) = length X
   \<and> (\<forall>i < length X. traj_t (LeastActionPath_init X vf_func D dt) ! i = real i * dt)
   \<and> (X \<noteq> [] \<longrightarrow> lap_action (LeastActionPath_init X vf_func D dt) ! 0 = 0)
   \<and> (\<forall>i. 1 \<le> i \<and> i < length X \<longrightarrow>
         lap_action (LeastActionPath_init X vf_func D dt) ! i
           = action (take (i + 1) (traj_X (LeastActionPath_init X vf_func D dt)))
                    (lap_func (LeastActionPath_init X vf_func D dt))
                    (lap_D (LeastActionPath_init X vf_func D dt)) dt)"
proof -
  let ?a = "foldl (\<lambda>a i. a[i := action (take (i + 1) X) vf_func D dt])
               (replicate (length X) 0) [1..<length X]"
  have nth: "?a ! k = (if 1 \<le> k \<and> k < length X then action (take (k + 1) X) vf_func D dt
                       else replicate (length X) 0 ! k)" if "k < length X" for k
    using that foldl_update_nth [of k "replicate (length X) 0"
        "\<lambda>i. action (take (i + 1) X) vf_func D dt" "[1..<length X]"] by auto
  have zero: "X \<noteq> [] \<Longrightarrow> ?a ! 0 = 0"
    using nth [of 0] by simp
  have pre: "\<forall>i. 1 \<le> i \<and> i < length X \<longrightarrow> ?a ! i = action (take (i + 1) X) vf_func D dt"
    using nth by simp
  from zero pre show ?thesis
    by (simp add: LeastActionPath_init_def foldl_update_length)
qed

theorem LeastActionPath_init_action_witness:
  "[[0], [1], [3 :: real]] \<noteq> []
   \<and> traj_t (LeastActionPath_init [[0], [1], [3]] (map (\<lambda>x. [1])) 1 2) = [0, 2, 4]
   \<and> lap_action (LeastActionPath_init [[0], [1], [3]] (map (\<lambda>x. [1])) 1 2) ! 0 = 0
   \<and> lap_action (LeastActionPath_init [[0], [1], [3]] (map (\<lambda>x. [1])) 1 2) ! 1
       = action [[0], [1]] (map (\<lambda>x. [1])) 1 2
   \<and> lap_action (LeastActionPath_init [[0], [1], [3]] (map (\<lambda>x. [1])) 1 2) ! 2
       = action [[0], [1], [3]] (map (\<lambda>x. [1])) 1 2
   \<and> action [[0], [1]] (map (\<lambda>x. [1])) 1 2 = 1 / 4"
proof -
  note r = LeastActionPath_init_action [of "[[0], [1], [3]]" "map (\<lambda>x. [1])" 1 2]
  have t: "traj_t (LeastActionPath_init [[0], [1], [3]] (map (\<lambda>x. [1])) 1 2) = [0, 2, 4]"
    by (simp add: LeastActionPath_init_def upt_conv_Cons)
  from r have z: "lap_action (LeastActionPath_init [[0], [1], [3]] (map (\<lambda>x. [1])) 1 2) ! 0 = 0"
    by simp
  from r have p: "\<forall>i. 1 \<le> i \<and> i < length [[0], [1], [3 :: real]] \<longrightarrow>
         lap_action (LeastActionPath_init [[0], [1], [3]] (map (\<lambda>x. [1])) 1 2) ! i
           = action (take (i + 1) [[0], [1], [3]]) (map (\<lambda>x. [1])) 1 2"
    by simp
  from p [rule_format, of 1]
  have p1: "lap_action (LeastActionPath_init [[0], [1], [3]] (map (\<lambda>x. [1])) 1 2) ! 1
       = action [[0], [1]] (map (\<lambda>x. [1])) 1 2"
    by simp
  from p [rule_format, of 2]
  have p2: "lap_action (LeastActionPath_init [[0], [1], [3]] (map (\<lambda>x. [1])) 1 2) ! 2
       = action [[0], [1], [3]] (map (\<lambda>x. [1])) 1 2"
    by simp
  have v: "action [[0], [1]] (map (\<lambda>x. [1])) 1 2 = 1 / 4"
    unfolding action_def np_diff_def dot_def vec_defs by simp
  from t z p1 p2 v show ?thesis by simp
qed

end
